theory Spec2Isabelle
  imports Main
begin

section \<open>Strings\<close>

text \<open>
  A statement is a Python \<open>str\<close>, modelled as a \<open>string\<close> whose characters are the
  code points below 256. The letters of a statement are taken to be ASCII: \<open>str.upper\<close>
  maps a-z to A-Z and leaves every other character alone. The whitespace of \<open>str.strip\<close>
  and of the regular expression \<open>\s\<close> is Python's whitespace below 256: tab, line feed,
  vertical tab, form feed, carriage return, the four separators 0x1C-0x1F, the blank, the
  next-line character 0x85 and the no-break space 0xA0.
\<close>

definition upper_char :: "char \<Rightarrow> char" where
  "upper_char c =
     (case map_of (zip ''abcdefghijklmnopqrstuvwxyz'' ''ABCDEFGHIJKLMNOPQRSTUVWXYZ'') c of
        Some u \<Rightarrow> u
      | None \<Rightarrow> c)"

definition upper :: "string \<Rightarrow> string" where
  "upper s = map upper_char s"

definition isspace :: "char \<Rightarrow> bool" where
  "isspace c \<longleftrightarrow>
     c \<in> set [CHR 0x09, CHR 0x0A, CHR 0x0B, CHR 0x0C, CHR 0x0D,
              CHR 0x1C, CHR 0x1D, CHR 0x1E, CHR 0x1F, CHR '' '', CHR 0x85, CHR 0xA0]"

text \<open>\<open>s.strip()\<close>: leading and trailing whitespace removed.\<close>

definition strip :: "string \<Rightarrow> string" where
  "strip s = rev (dropWhile isspace (rev (dropWhile isspace s)))"

text \<open>\<open>s.rstrip(chars)\<close>: every trailing character that occurs in \<open>chars\<close> removed.\<close>

definition rstrip :: "string \<Rightarrow> string \<Rightarrow> string" where
  "rstrip chars s = rev (dropWhile (\<lambda>c. c \<in> set chars) (rev s))"

text \<open>\<open>s.startswith(p)\<close>.\<close>

fun startswith :: "string \<Rightarrow> string \<Rightarrow> bool" where
  "startswith s [] = True"
| "startswith [] (p # ps) = False"
| "startswith (c # cs) (p # ps) = (c = p \<and> startswith cs ps)"

text \<open>\<open>sub in s\<close>: \<open>sub\<close> occurs in \<open>s\<close> as a contiguous substring.\<close>

fun contains :: "string \<Rightarrow> string \<Rightarrow> bool" where
  "contains sub [] = (sub = [])"
| "contains sub (c # cs) = (startswith (c # cs) sub \<or> contains sub cs)"

text \<open>\<open>s.count(c)\<close> for a one-character \<open>c\<close>.\<close>

definition count_char :: "char \<Rightarrow> string \<Rightarrow> nat" where
  "count_char c s = length (filter (\<lambda>x. x = c) s)"

text \<open>\<open>str(n)\<close> for a natural number: its decimal digits.\<close>

definition digit_char :: "nat \<Rightarrow> char" where
  "digit_char d = ''0123456789'' ! d"

fun str_of_nat :: "nat \<Rightarrow> string" where
  "str_of_nat n =
     (if n < 10 then [digit_char n] else str_of_nat (n div 10) @ [digit_char (n mod 10)])"

declare str_of_nat.simps [simp del]

section \<open>The fragment of regular expressions of the forbidden patterns\<close>

text \<open>
  The patterns of the tool use three constructs of Python's \<open>re\<close>: a literal character
  (letters, \<open>-\<close>, \<open>/\<close>, \<open>_\<close>), an escaped punctuation character that stands for itself
  (\<open>\*\<close>), and \<open>\s+\<close>, one or more whitespace characters. \<open>compile\<close> reads a
  pattern text of this syntax into its atoms, \<open>re_search\<close> is \<open>re.search\<close>: the pattern
  matches at some position of the text.
\<close>

datatype atom = Lit char | Spaces

definition backslash :: char where
  "backslash = CHR 0x5C"

fun compile :: "string \<Rightarrow> atom list" where
  "compile [] = []"
| "compile [c] = [Lit c]"
| "compile (c # d # cs) =
     (if c = backslash then
        (if d = CHR ''s'' \<and> cs \<noteq> [] \<and> hd cs = CHR ''+'' then Spaces # compile (tl cs)
         else Lit d # compile cs)
      else Lit c # compile (d # cs))"

fun match_here :: "atom list \<Rightarrow> string \<Rightarrow> bool" where
  "match_here [] s = True"
| "match_here (a # as) [] = False"
| "match_here (Lit c # as) (x # xs) = (x = c \<and> match_here as xs)"
| "match_here (Spaces # as) (x # xs) =
     (isspace x \<and> (match_here as xs \<or> match_here (Spaces # as) xs))"

fun search_atoms :: "atom list \<Rightarrow> string \<Rightarrow> bool" where
  "search_atoms p [] = match_here p []"
| "search_atoms p (x # xs) = (match_here p (x # xs) \<or> search_atoms p xs)"

definition re_search :: "string \<Rightarrow> string \<Rightarrow> bool" where
  "re_search pattern s = search_atoms (compile pattern) s"

section \<open>The validator\<close>

text \<open>The table \<open>self.forbidden_patterns\<close> of the constructor, in its order.\<close>

definition forbidden_patterns :: "string list" where
  "forbidden_patterns =
     [''DROP'' @ [backslash] @ ''s+'',
      ''DELETE'' @ [backslash] @ ''s+'',
      ''INSERT'' @ [backslash] @ ''s+'',
      ''UPDATE'' @ [backslash] @ ''s+'',
      ''ALTER'' @ [backslash] @ ''s+'',
      ''CREATE'' @ [backslash] @ ''s+'',
      ''EXEC'' @ [backslash] @ ''s+'',
      ''UNION'' @ [backslash] @ ''s+'',
      ''--'',
      ''/'' @ [backslash] @ ''*'',
      ''xp_'',
      ''sp_'']"

definition max_results :: nat where
  "max_results = 1000"

text \<open>
  The loop over the forbidden patterns: the first pattern found in the text ends the loop
  with its rejection; \<open>None\<close> when the loop runs to its end.
\<close>

fun first_forbidden :: "string list \<Rightarrow> string \<Rightarrow> string option" where
  "first_forbidden [] sql_upper = None"
| "first_forbidden (pattern # rest) sql_upper =
     (if re_search pattern sql_upper then Some pattern else first_forbidden rest sql_upper)"

definition sql_upper_of :: "string \<Rightarrow> string" where
  "sql_upper_of sql = strip (upper sql)"

definition validate_sql :: "string \<Rightarrow> bool \<times> string" where
  "validate_sql sql =
     (let sql_upper = sql_upper_of sql in
      if \<not> startswith sql_upper ''SELECT'' then (False, ''Only SELECT queries are allowed'')
      else case first_forbidden forbidden_patterns sql_upper of
        Some pattern \<Rightarrow> (False, ''Forbidden SQL pattern detected: '' @ pattern)
      | None \<Rightarrow>
          let allowed_tables = [''transactions'', ''client_summary''] in
          if \<not> list_ex (\<lambda>table. contains (''FROM '' @ table) sql_upper)
                   [''TRANSACTIONS'', ''CLIENT_SUMMARY'']
          then (False, ''Query must use '' @ [CHR 0x27] @ ''transactions'' @ [CHR 0x27]
                        @ '' or '' @ [CHR 0x27] @ ''client_summary'' @ [CHR 0x27] @ '' table'')
          else
            let suspicious_chars = [CHR '';'', CHR 0x22, CHR 0x27];
                quote_count = count_char (CHR 0x27) sql in
            if quote_count mod 2 \<noteq> 0 then (False, ''Unmatched quotes detected'')
            else (True, ''Query validated successfully''))"

section \<open>The executor\<close>

text \<open>
  The store is SQLite behind Python's \<open>sqlite3\<close>, which is not code of the tool: it is
  a parameter of the model. \<open>connect\<close> is \<open>sqlite3.connect(self.db_path)\<close> (\<open>None\<close>
  when the connection opens), \<open>execute\<close> is \<open>cursor.execute\<close>, \<open>fetchall\<close> is
  \<open>cursor.fetchall\<close>, \<open>description\<close> is \<open>cursor.description\<close> and \<open>dict\<close> is
  the conversion \<open>dict(row)\<close> of a \<open>sqlite3.Row\<close>. An exception raised by the store
  is a \<open>fault\<close>: an \<open>sqlite3.Error\<close> or any other \<open>Exception\<close>, with its text
  \<open>str(e)\<close>.
\<close>

datatype fault = Sqlite_Error string | Other_Exception string

text \<open>An entry of \<open>cursor.description\<close>: a tuple whose component 0 is the column name.\<close>

datatype column_info = Column_Info (col_name: string)

record ('cur, 'row, 'dict) store =
  connect :: "fault option"
  execute :: "string \<Rightarrow> fault + 'cur"
  fetchall :: "'cur \<Rightarrow> fault + 'row list"
  description :: "'cur \<Rightarrow> column_info list"
  dict :: "'row \<Rightarrow> 'dict"

text \<open>What a call does to the store, in order.\<close>

datatype event = Connect | Execute string | Fetchall | Close

text \<open>The two shapes of the dictionary that \<open>execute_query\<close> returns.\<close>

datatype 'dict outcome =
    Failure (error: string) (query: string) (results: "'dict list")
  | Success (query: string) (results: "'dict list") (column_names: "string list")
      (row_count: nat) (limited: bool)

fun success :: "'dict outcome \<Rightarrow> bool" where
  "success (Failure e q rs) = False"
| "success (Success q rs cs n l) = True"

fun executed :: "event list \<Rightarrow> string list" where
  "executed [] = []"
| "executed (Execute s # es) = s # executed es"
| "executed (e # es) = executed es"

definition sql_clean_of :: "string \<Rightarrow> string" where
  "sql_clean_of sql = strip (rstrip '';'' sql)"

definition limited_sql_of :: "string \<Rightarrow> string" where
  "limited_sql_of sql =
     (let sql_clean = sql_clean_of sql in
      if \<not> contains ''LIMIT'' (upper sql_clean)
      then sql_clean @ '' LIMIT '' @ str_of_nat max_results
      else sql_clean)"

text \<open>The body of the \<open>try\<close> block: a fault or the success outcome, and the trace.\<close>

definition try_body ::
  "('cur, 'row, 'dict) store \<Rightarrow> string \<Rightarrow> (fault + 'dict outcome) \<times> event list" where
  "try_body st sql =
     (case connect st of
        Some f \<Rightarrow> (Inl f, [Connect])
      | None \<Rightarrow>
          (let limited_sql = limited_sql_of sql in
           (case execute st limited_sql of
              Inl f \<Rightarrow> (Inl f, [Connect, Execute limited_sql])
            | Inr cur \<Rightarrow>
                (case fetchall st cur of
                   Inl f \<Rightarrow> (Inl f, [Connect, Execute limited_sql, Fetchall])
                 | Inr rows \<Rightarrow>
                     (let results = map (dict st) rows;
                          column_names =
                            (if rows \<noteq> [] then map col_name (description st cur) else [])
                      in (Inr (Success sql results column_names (length results)
                                (length results = max_results)),
                          [Connect, Execute limited_sql, Fetchall, Close]))))))"

definition execute_query ::
  "('cur, 'row, 'dict) store \<Rightarrow> string \<Rightarrow> 'dict outcome \<times> event list" where
  "execute_query st sql =
     (case validate_sql sql of
        (is_valid, validation_msg) \<Rightarrow>
          (if \<not> is_valid
           then (Failure (''SQL Validation Failed: '' @ validation_msg) sql [], [])
           else (case try_body st sql of
                   (Inr out, trace) \<Rightarrow> (out, trace)
                 | (Inl (Sqlite_Error e), trace) \<Rightarrow>
                     (Failure (''SQL Execution Error: '' @ e) sql [], trace)
                 | (Inl (Other_Exception e), trace) \<Rightarrow>
                     (Failure (''Unexpected Error: '' @ e) sql [], trace))))"

text \<open>
  A store for concrete runs: a table of \<open>n\<close> rows with one column. The cursor is the
  statement; a statement that ends in the appended cap yields at most that many rows.
\<close>

definition table_store :: "nat \<Rightarrow> (string, nat, nat) store" where
  "table_store n =
     \<lparr>connect = None,
      execute = (\<lambda>s. Inr s),
      fetchall = (\<lambda>cur. Inr (if startswith (rev cur) (rev '' LIMIT 1000'')
                                 then replicate (min n 1000) 0 else replicate n 0)),
      description = (\<lambda>cur. [Column_Info ''amt'']),
      dict = (\<lambda>row. row)\<rparr>"


section \<open>How a call runs\<close>

lemma try_body_connect_fault:
  "connect st = Some f \<Longrightarrow> try_body st sql = (Inl f, [Connect])"
  by (simp add: try_body_def)

lemma try_body_execute_fault:
  "connect st = None \<Longrightarrow> execute st (limited_sql_of sql) = Inl f \<Longrightarrow>
   try_body st sql = (Inl f, [Connect, Execute (limited_sql_of sql)])"
  by (simp add: try_body_def Let_def)

lemma try_body_fetchall_fault:
  "connect st = None \<Longrightarrow> execute st (limited_sql_of sql) = Inr cur \<Longrightarrow>
   fetchall st cur = Inl f \<Longrightarrow>
   try_body st sql = (Inl f, [Connect, Execute (limited_sql_of sql), Fetchall])"
  by (simp add: try_body_def Let_def)

lemma try_body_rows:
  "connect st = None \<Longrightarrow> execute st (limited_sql_of sql) = Inr cur \<Longrightarrow>
   fetchall st cur = Inr rows \<Longrightarrow>
   try_body st sql =
     (Inr (Success sql (map (dict st) rows)
            (if rows \<noteq> [] then map col_name (description st cur) else [])
            (length rows) (length rows = 1000)),
      [Connect, Execute (limited_sql_of sql), Fetchall, Close])"
  by (simp add: try_body_def Let_def max_results_def)

lemma execute_query_admitted:
  "fst (validate_sql sql) \<Longrightarrow>
   execute_query st sql =
     (case try_body st sql of
        (Inr out, trace) \<Rightarrow> (out, trace)
      | (Inl (Sqlite_Error e), trace) \<Rightarrow>
          (Failure (''SQL Execution Error: '' @ e) sql [], trace)
      | (Inl (Other_Exception e), trace) \<Rightarrow>
          (Failure (''Unexpected Error: '' @ e) sql [], trace))"
  by (cases "validate_sql sql") (simp add: execute_query_def)

lemma execute_query_rejected:
  "\<not> fst (validate_sql sql) \<Longrightarrow>
   execute_query st sql =
     (Failure (''SQL Validation Failed: '' @ snd (validate_sql sql)) sql [], [])"
  by (cases "validate_sql sql") (simp add: execute_query_def)

lemma try_body_trace:
  "snd (try_body st sql) =
     (case connect st of
        Some f \<Rightarrow> [Connect]
      | None \<Rightarrow>
         (case execute st (limited_sql_of sql) of
            Inl f \<Rightarrow> [Connect, Execute (limited_sql_of sql)]
          | Inr cur \<Rightarrow>
             (case fetchall st cur of
                Inl f \<Rightarrow> [Connect, Execute (limited_sql_of sql), Fetchall]
              | Inr rows \<Rightarrow> [Connect, Execute (limited_sql_of sql), Fetchall, Close])))"
  by (simp add: try_body_def Let_def split: option.split sum.split)

lemma execute_query_trace:
  "fst (validate_sql sql) \<Longrightarrow> snd (execute_query st sql) = snd (try_body st sql)"
  by (simp add: execute_query_admitted split: prod.split sum.split fault.split)

lemma admitted_opens_connection:
  "fst (validate_sql sql) \<Longrightarrow> hd (snd (execute_query st sql)) = Connect"
  by (simp add: execute_query_trace try_body_trace split: option.split sum.split)

lemma limited_sql_of_cases:
  "limited_sql_of sql =
     (if contains ''LIMIT'' (upper (sql_clean_of sql)) then sql_clean_of sql
      else sql_clean_of sql @ '' LIMIT 1000'')"
  by (simp add: limited_sql_of_def Let_def max_results_def str_of_nat.simps digit_char_def)

lemma try_body_result:
  assumes "fst (try_body st sql) = Inr out"
  shows "\<exists>cur rows. connect st = None \<and> execute st (limited_sql_of sql) = Inr cur
           \<and> fetchall st cur = Inr rows
           \<and> out = Success sql (map (dict st) rows)
                      (if rows \<noteq> [] then map col_name (description st cur) else [])
                      (length rows) (length rows = 1000)"
proof (cases "connect st")
  case (Some f)
  with assms show ?thesis by (simp add: try_body_connect_fault)
next
  case None
  show ?thesis
  proof (cases "execute st (limited_sql_of sql)")
    case (Inl f)
    with None assms show ?thesis by (simp add: try_body_execute_fault)
  next
    case (Inr cur)
    show ?thesis
    proof (cases "fetchall st cur")
      case (Inl f)
      with None Inr assms show ?thesis by (simp add: try_body_fetchall_fault)
    next
      case rows: (Inr rows)
      from assms have "out = Success sql (map (dict st) rows)
                      (if rows \<noteq> [] then map col_name (description st cur) else [])
                      (length rows) (length rows = 1000)"
        by (simp add: try_body_rows [OF None Inr rows])
      with None Inr rows show ?thesis by blast
    qed
  qed
qed

lemma execute_query_success:
  assumes "fst (execute_query st sql) = Success q res cols n lim"
  shows "fst (validate_sql sql) \<and> fst (try_body st sql) = Inr (Success q res cols n lim)"
proof (cases "fst (validate_sql sql)")
  case False
  with assms show ?thesis by (simp add: execute_query_rejected)
next
  case True
  with assms show ?thesis
    by (simp add: execute_query_admitted split: prod.splits sum.splits fault.splits)
qed

section \<open>Quote parity\<close>

text \<open>
  Claim C8. A statement with an odd number of single-quote characters, counted in the raw
  statement, is rejected by \<open>validate_sql\<close> whatever else it contains.
\<close>

theorem odd_quotes_rejected:
  "odd (count_char (CHR 0x27) sql) \<Longrightarrow> \<not> fst (validate_sql sql)"
  by (simp add: validate_sql_def Let_def odd_iff_mod_2_eq_one split: option.split)

theorem odd_quotes_rejected_witness:
  "odd (count_char (CHR 0x27) (''SELECT * FROM transactions WHERE cat = '' @ [CHR 0x27] @ ''x''))
   \<and> \<not> fst (validate_sql (''SELECT * FROM transactions WHERE cat = '' @ [CHR 0x27] @ ''x''))"
proof -
  have h: "odd (count_char (CHR 0x27)
             (''SELECT * FROM transactions WHERE cat = '' @ [CHR 0x27] @ ''x''))"
    by code_simp
  from odd_quotes_rejected [OF h] h show ?thesis by blast
qed

section \<open>Rejected statements\<close>

text \<open>
  Claim C5. For a statement that the validator rejects, \<open>execute_query\<close> returns the failure
  outcome with the rejection reason, the original statement and no results, and its trace
  is empty: no connection is opened and nothing is executed. (An admitted statement does
  reach the store, see \<open>admitted_opens_connection\<close>.)
\<close>

theorem rejected_never_touches_store:
  "validate_sql sql = (False, reason) \<Longrightarrow>
   execute_query st sql = (Failure (''SQL Validation Failed: '' @ reason) sql [], [])"
  by (simp add: execute_query_def)

theorem rejected_never_touches_store_witness:
  "validate_sql ''DROP TABLE transactions'' = (False, ''Only SELECT queries are allowed'')
   \<and> execute_query (table_store 5) ''DROP TABLE transactions''
       = (Failure (''SQL Validation Failed: '' @ ''Only SELECT queries are allowed'')
            ''DROP TABLE transactions'' [], [])"
proof -
  have h: "validate_sql ''DROP TABLE transactions'' = (False, ''Only SELECT queries are allowed'')"
    by code_simp
  from rejected_never_touches_store [OF h] h show ?thesis by blast
qed

section \<open>Faults of the store\<close>



section \<open>The success outcome\<close>

text \<open>
  Claim C7. A success outcome of \<open>execute_query\<close> carries the statement, the rows that the
  store returned, each converted by \<open>dict\<close>, in their order, the column names of the
  cursor in its order (when there is a row; the case of no row is claim C9), a row count
  equal to the number of rows, and a \<open>limited\<close> flag that is true exactly when the row
  count is the cap of 1000.
\<close>

theorem success_outcome_shape:
  assumes "fst (execute_query st sql) = Success q res cols n lim"
  shows "q = sql \<and> n = length res \<and> (lim \<longleftrightarrow> n = 1000)
         \<and> (\<exists>cur rows. execute st (limited_sql_of sql) = Inr cur \<and> fetchall st cur = Inr rows
               \<and> res = map (dict st) rows
               \<and> (rows \<noteq> [] \<longrightarrow> cols = map col_name (description st cur)))"
proof -
  from execute_query_success [OF assms]
  have "fst (try_body st sql) = Inr (Success q res cols n lim)" by simp
  from try_body_result [OF this] obtain cur rows where
    ex: "execute st (limited_sql_of sql) = Inr cur" and fe: "fetchall st cur = Inr rows"
    and out: "Success q res cols n lim = Success sql (map (dict st) rows)
                      (if rows \<noteq> [] then map col_name (description st cur) else [])
                      (length rows) (length rows = 1000)"
    by blast
  from out have "q = sql" "res = map (dict st) rows" "n = length rows" "lim = (length rows = 1000)"
    "cols = (if rows \<noteq> [] then map col_name (description st cur) else [])"
    by simp_all
  with ex fe show ?thesis by auto
qed

theorem success_outcome_shape_witness:
  "fst (execute_query (table_store 5) ''SELECT * FROM transactions'')
     = Success ''SELECT * FROM transactions'' [0, 0, 0, 0, 0] [''amt''] 5 False
   \<and> 5 = length [0::nat, 0, 0, 0, 0] \<and> (False \<longleftrightarrow> (5::nat) = 1000)"
proof -
  have h: "fst (execute_query (table_store 5) ''SELECT * FROM transactions'')
     = Success ''SELECT * FROM transactions'' [0, 0, 0, 0, 0] [''amt''] 5 False"
    by code_simp
  from success_outcome_shape [OF h] h show ?thesis by simp
qed

section \<open>The empty result\<close>

text \<open>
  Claim C9. When an admitted statement runs without a fault and the store returns no row,
  \<open>execute_query\<close> returns a success outcome with no results, no column names and row
  count 0, whatever the description of the cursor holds; the column names are taken from
  the cursor only when there is a row.
\<close>

theorem empty_result_is_success:
  assumes "fst (validate_sql sql)" and "connect st = None"
    and "execute st (limited_sql_of sql) = Inr cur" and "fetchall st cur = Inr rows"
  shows "(rows = [] \<longrightarrow> fst (execute_query st sql) = Success sql [] [] 0 False
                        \<and> success (fst (execute_query st sql)))
       \<and> (rows \<noteq> [] \<longrightarrow> column_names (fst (execute_query st sql))
                           = map col_name (description st cur))"
  using assms by (simp add: execute_query_admitted try_body_rows)

theorem empty_result_is_success_witness:
  "fst (validate_sql ''SELECT * FROM transactions WHERE amt > 100'')
   \<and> connect (table_store 0) = None
   \<and> execute (table_store 0) (limited_sql_of ''SELECT * FROM transactions WHERE amt > 100'')
       = Inr ''SELECT * FROM transactions WHERE amt > 100 LIMIT 1000''
   \<and> fetchall (table_store 0) ''SELECT * FROM transactions WHERE amt > 100 LIMIT 1000'' = Inr []
   \<and> description (table_store 0) ''SELECT * FROM transactions WHERE amt > 100 LIMIT 1000''
       = [Column_Info ''amt'']
   \<and> fst (execute_query (table_store 0) ''SELECT * FROM transactions WHERE amt > 100'')
       = Success ''SELECT * FROM transactions WHERE amt > 100'' [] [] 0 False"
proof -
  have h1: "fst (validate_sql ''SELECT * FROM transactions WHERE amt > 100'')"
    by code_simp
  have h2: "connect (table_store 0) = None"
    by code_simp
  have h3: "execute (table_store 0) (limited_sql_of ''SELECT * FROM transactions WHERE amt > 100'')
       = Inr ''SELECT * FROM transactions WHERE amt > 100 LIMIT 1000''"
    by code_simp
  have h4: "fetchall (table_store 0) ''SELECT * FROM transactions WHERE amt > 100 LIMIT 1000''
       = Inr []"
    by code_simp
  have h5: "description (table_store 0) ''SELECT * FROM transactions WHERE amt > 100 LIMIT 1000''
       = [Column_Info ''amt'']"
    by code_simp
  from empty_result_is_success [OF h1 h2 h3 h4] h1 h2 h3 h4 h5 show ?thesis by blast
qed

section \<open>The row cap\<close>

lemma startswith_append: "startswith (p @ s) p"
  by (induction p) simp_all

text \<open>The example store returns at most 1000 rows for a statement that ends in the cap.\<close>

lemma table_store_honours_cap:
  "\<forall>stmt cur rows. execute (table_store n) (stmt @ '' LIMIT 1000'') = Inr cur
      \<and> fetchall (table_store n) cur = Inr rows \<longrightarrow> length rows \<le> 1000"
proof (intro allI impI)
  fix stmt cur rows
  assume a: "execute (table_store n) (stmt @ '' LIMIT 1000'') = Inr cur
      \<and> fetchall (table_store n) cur = Inr rows"
  then have cur: "cur = stmt @ '' LIMIT 1000''" by (simp add: table_store_def)
  have "startswith (rev (stmt @ '' LIMIT 1000'')) (rev '' LIMIT 1000'')"
    unfolding rev_append by (rule startswith_append)
  with a cur have "rows = replicate (min n 1000) 0"
    by (simp add: table_store_def del: rev.simps rev_append)
  then show "length rows \<le> 1000" by simp
qed

text \<open>
  The statement handed to the store is the cleaned statement, followed by \<open>LIMIT 1000\<close>
  when the text \<open>LIMIT\<close> does not occur in it; the store receives exactly one statement.
  With the cap appended, a store that returns at most 1000 rows for a statement ending in
  \<open>LIMIT 1000\<close> yields at most 1000 results.
\<close>

lemma cap_appended_when_limit_absent:
  assumes "fst (validate_sql sql)" and "connect st = None"
    and "\<forall>stmt cur rows. execute st (stmt @ '' LIMIT 1000'') = Inr cur
            \<and> fetchall st cur = Inr rows \<longrightarrow> length rows \<le> 1000"
  shows "executed (snd (execute_query st sql))
           = [if contains ''LIMIT'' (upper (sql_clean_of sql)) then sql_clean_of sql
              else sql_clean_of sql @ '' LIMIT 1000'']
       \<and> (\<not> contains ''LIMIT'' (upper (sql_clean_of sql))
            \<longrightarrow> length (results (fst (execute_query st sql))) \<le> 1000)"
proof
  from assms(1,2) show "executed (snd (execute_query st sql))
           = [if contains ''LIMIT'' (upper (sql_clean_of sql)) then sql_clean_of sql
              else sql_clean_of sql @ '' LIMIT 1000'']"
    by (simp add: execute_query_trace try_body_trace limited_sql_of_cases split: sum.split)
next
  show "\<not> contains ''LIMIT'' (upper (sql_clean_of sql))
            \<longrightarrow> length (results (fst (execute_query st sql))) \<le> 1000"
  proof
    assume no: "\<not> contains ''LIMIT'' (upper (sql_clean_of sql))"
    then have lim: "limited_sql_of sql = sql_clean_of sql @ '' LIMIT 1000''"
      by (simp add: limited_sql_of_cases)
    show "length (results (fst (execute_query st sql))) \<le> 1000"
    proof (cases "execute st (limited_sql_of sql)")
      case (Inl f)
      with assms(1,2) show ?thesis
        by (cases f) (simp_all add: execute_query_admitted try_body_execute_fault)
    next
      case (Inr cur)
      show ?thesis
      proof (cases "fetchall st cur")
        case (Inl f)
        with Inr assms(1,2) show ?thesis
          by (cases f) (simp_all add: execute_query_admitted try_body_fetchall_fault)
      next
        case rows: (Inr rows)
        from Inr lim have "execute st (sql_clean_of sql @ '' LIMIT 1000'') = Inr cur" by simp
        with rows assms(3) have "length rows \<le> 1000" by blast
        with Inr rows assms(1,2) show ?thesis
          by (simp add: execute_query_admitted try_body_rows)
      qed
    qed
  qed
qed

lemma cap_appended_when_limit_absent_example:
  "fst (validate_sql ''SELECT * FROM transactions;'')
   \<and> connect (table_store 1001) = None
   \<and> executed (snd (execute_query (table_store 1001) ''SELECT * FROM transactions;''))
       = [''SELECT * FROM transactions LIMIT 1000'']
   \<and> length (results (fst (execute_query (table_store 1001) ''SELECT * FROM transactions;'')))
       \<le> 1000
   \<and> fst (validate_sql ''SELECT * FROM transactions LIMIT 3'')
   \<and> executed (snd (execute_query (table_store 1001) ''SELECT * FROM transactions LIMIT 3''))
       = [''SELECT * FROM transactions LIMIT 3'']"
proof -
  have h1: "fst (validate_sql ''SELECT * FROM transactions;'')"
    by code_simp
  have h2: "connect (table_store 1001) = None"
    by code_simp
  note h3 = table_store_honours_cap [of 1001]
  have c1: "\<not> contains ''LIMIT'' (upper (sql_clean_of ''SELECT * FROM transactions;''))"
    by code_simp
  have d1: "sql_clean_of ''SELECT * FROM transactions;'' = ''SELECT * FROM transactions''"
    by code_simp
  have k1: "fst (validate_sql ''SELECT * FROM transactions LIMIT 3'')"
    by code_simp
  have c2: "contains ''LIMIT'' (upper (sql_clean_of ''SELECT * FROM transactions LIMIT 3''))"
    by code_simp
  have d2: "sql_clean_of ''SELECT * FROM transactions LIMIT 3''
              = ''SELECT * FROM transactions LIMIT 3''"
    by code_simp
  from cap_appended_when_limit_absent [OF h1 h2 h3]
       cap_appended_when_limit_absent [OF k1 h2 h3]
       h1 h2 k1 c1 c2 d1 d2
  show ?thesis by simp
qed

text \<open>
  Claim C1. For every admitted statement with no LIMIT clause, \<open>execute_query\<close> is to
  append \<open>LIMIT 1000\<close> before execution, so that at most 1000 rows are returned (in the
  words of the executor: execute the query with a result limit if not already present);
  a statement with a LIMIT of the caller is executed untouched. The code does not keep the
  first half: it tests whether the text \<open>LIMIT\<close> occurs anywhere in the upper-cased
  statement. The admitted statement below has the text in a column alias and no LIMIT
  clause; no cap is appended, the statement reaches the store as it is, and a store of
  1001 rows returns them all.
\<close>

theorem limit_substring_counterexample:
  "fst (validate_sql ''SELECT amt AS daily_limit FROM transactions'')
   \<and> executed (snd (execute_query (table_store 1001)
                      ''SELECT amt AS daily_limit FROM transactions''))
       = [''SELECT amt AS daily_limit FROM transactions'']
   \<and> row_count (fst (execute_query (table_store 1001)
                        ''SELECT amt AS daily_limit FROM transactions'')) = 1001"
  by code_simp

section \<open>Cleaning the statement\<close>

lemma semicolon_not_space: "\<not> isspace (CHR '';'')"
  by (simp add: isspace_def)

lemma dropWhile_keeps: "s \<noteq> [] \<Longrightarrow> \<not> P (hd s) \<Longrightarrow> dropWhile P s = s"
  by (cases s) simp_all

lemma rstrip_replicate:
  assumes "s \<noteq> []" and "last s \<noteq> c"
  shows "rstrip [c] (s @ replicate n c) = s"
proof -
  have "dropWhile (\<lambda>x. x \<in> set [c]) (replicate n c @ rev s)
          = dropWhile (\<lambda>x. x \<in> set [c]) (rev s)"
    by (rule dropWhile_append2) simp
  also from assms have "\<dots> = rev s"
    by (intro dropWhile_keeps) (simp_all add: hd_rev)
  finally show ?thesis by (simp add: rstrip_def)
qed

lemma strip_core:
  assumes lead: "\<forall>c\<in>set lead. isspace c" and gap: "\<forall>c\<in>set gap. isspace c"
    and body: "body \<noteq> []" "\<not> isspace (hd body)" "\<not> isspace (last body)"
  shows "strip (lead @ body @ gap) = body"
proof -
  from lead have "dropWhile isspace (lead @ body @ gap) = dropWhile isspace (body @ gap)"
    by (intro dropWhile_append2) simp
  also from body have "\<dots> = body @ gap"
    by (intro dropWhile_keeps) simp_all
  finally have front: "dropWhile isspace (lead @ body @ gap) = body @ gap" .
  from gap have "dropWhile isspace (rev gap @ rev body) = dropWhile isspace (rev body)"
    by (intro dropWhile_append2) simp
  also from body have "\<dots> = rev body"
    by (intro dropWhile_keeps) (simp_all add: hd_rev)
  finally have "dropWhile isspace (rev (body @ gap)) = rev body" by simp
  with front show ?thesis by (simp add: strip_def)
qed

lemma sql_clean_of_core:
  assumes lead: "\<forall>c\<in>set lead. isspace c" and gap: "\<forall>c\<in>set gap. isspace c"
    and body: "body \<noteq> []" "\<not> isspace (hd body)" "\<not> isspace (last body)"
      "last body \<noteq> CHR '';''"
  shows "sql_clean_of (lead @ body @ gap @ replicate n (CHR '';'')) = body"
proof -
  have ne: "lead @ body @ gap \<noteq> []" using body by simp
  have "last (lead @ body @ gap) \<noteq> CHR '';''"
  proof (cases "gap = []")
    case True
    with body show ?thesis by simp
  next
    case False
    then have "last gap \<in> set gap" by simp
    with gap have "isspace (last gap)" by blast
    with semicolon_not_space have "last gap \<noteq> CHR '';''" by metis
    with False show ?thesis by simp
  qed
  with ne have "rstrip '';'' ((lead @ body @ gap) @ replicate n (CHR '';'')) = lead @ body @ gap"
    by (rule rstrip_replicate)
  then show ?thesis
    using strip_core [OF lead gap body(1,2,3)] by (simp add: sql_clean_of_def)
qed

text \<open>
  Claim C6, as stated, fails: \<open>rstrip\<close> removes every trailing semicolon, not a single
  one, and it runs before \<open>strip\<close>, so a semicolon that is followed by whitespace stays
  and the cap is appended after it.
\<close>

theorem single_terminator_counterexample:
  "fst (validate_sql ''SELECT 1 FROM transactions;;'')
   \<and> sql_clean_of ''SELECT 1 FROM transactions;;'' = ''SELECT 1 FROM transactions''
   \<and> fst (validate_sql ''SELECT 1 FROM transactions; '')
   \<and> sql_clean_of ''SELECT 1 FROM transactions; '' = ''SELECT 1 FROM transactions;''
   \<and> executed (snd (execute_query (table_store 5) ''SELECT 1 FROM transactions; ''))
       = [''SELECT 1 FROM transactions; LIMIT 1000'']"
  by code_simp

text \<open>
  Claim C6, amended. On admission, before execution, \<open>execute_query\<close> removes all the
  semicolons at the very end of the statement and then the whitespace around what remains,
  and leaves the rest as it is: a statement made of whitespace, a body, whitespace and any
  number of semicolons, where the body neither starts nor ends with whitespace and does not
  end with a semicolon, is executed as its body (with the cap of claim C1 appended when the
  body does not contain \<open>LIMIT\<close>).
\<close>

theorem trailing_terminators_stripped:
  assumes "fst (validate_sql sql)" and "connect st = None"
    and "sql = lead @ body @ gap @ replicate n (CHR '';'')"
    and "list_all isspace lead" and "list_all isspace gap"
    and "body \<noteq> []" and "\<not> isspace (hd body)" and "\<not> isspace (last body)"
    and "last body \<noteq> CHR '';''"
  shows "sql_clean_of sql = body
       \<and> executed (snd (execute_query st sql))
           = [if contains ''LIMIT'' (upper body) then body else body @ '' LIMIT 1000'']"
proof -
  from assms(3-9) have clean: "sql_clean_of sql = body"
    by (simp add: sql_clean_of_core list_all_iff)
  from assms(1,2) have "executed (snd (execute_query st sql)) = [limited_sql_of sql]"
    by (simp add: execute_query_trace try_body_trace split: sum.split)
  with clean show ?thesis by (simp add: limited_sql_of_cases)
qed

theorem trailing_terminators_stripped_witness:
  "fst (validate_sql ''  SELECT * FROM transactions ;;'')
   \<and> connect (table_store 5) = None
   \<and> ''  SELECT * FROM transactions ;;''
       = ''  '' @ ''SELECT * FROM transactions'' @ '' '' @ replicate 2 (CHR '';'')
   \<and> list_all isspace ''  '' \<and> list_all isspace '' ''
   \<and> ''SELECT * FROM transactions'' \<noteq> []
   \<and> \<not> isspace (hd ''SELECT * FROM transactions'')
   \<and> \<not> isspace (last ''SELECT * FROM transactions'')
   \<and> last ''SELECT * FROM transactions'' \<noteq> CHR '';''
   \<and> sql_clean_of ''  SELECT * FROM transactions ;;'' = ''SELECT * FROM transactions''
   \<and> executed (snd (execute_query (table_store 5) ''  SELECT * FROM transactions ;;''))
       = [''SELECT * FROM transactions LIMIT 1000'']"
proof -
  have h1: "fst (validate_sql ''  SELECT * FROM transactions ;;'')"
    by code_simp
  have h2: "connect (table_store 5) = None"
    by code_simp
  have h3: "''  SELECT * FROM transactions ;;''
       = ''  '' @ ''SELECT * FROM transactions'' @ '' '' @ replicate 2 (CHR '';'')"
    by code_simp
  have h4: "list_all isspace ''  ''"
    by code_simp
  have h5: "list_all isspace '' ''"
    by code_simp
  have h6: "''SELECT * FROM transactions'' \<noteq> []"
    by simp
  have h7: "\<not> isspace (hd ''SELECT * FROM transactions'')"
    by code_simp
  have h8: "\<not> isspace (last ''SELECT * FROM transactions'')"
    by code_simp
  have h9: "last ''SELECT * FROM transactions'' \<noteq> CHR '';''"
    by code_simp
  have c: "\<not> contains ''LIMIT'' (upper ''SELECT * FROM transactions'')"
    by code_simp
  from trailing_terminators_stripped [OF h1 h2 h3 h4 h5 h6 h7 h8 h9] c
  have "sql_clean_of ''  SELECT * FROM transactions ;;'' = ''SELECT * FROM transactions''
   \<and> executed (snd (execute_query (table_store 5) ''  SELECT * FROM transactions ;;''))
       = [''SELECT * FROM transactions LIMIT 1000'']"
    by simp
  with h1 h2 h3 h4 h5 h6 h7 h8 h9 show ?thesis by blast
qed

section \<open>What the forbidden patterns match\<close>

text \<open>
  A pattern made of a word and \<open>\s+\<close> is found in a text exactly when the word occurs there
  followed by a whitespace character; a pattern made of literal characters is found exactly
  when it occurs as a substring.
\<close>

lemma match_here_empty: "match_here p [] \<longleftrightarrow> p = []"
  by (cases p) simp_all

lemma match_here_literal: "match_here (map Lit lit) s \<longleftrightarrow> startswith s lit"
  by (induction s lit rule: startswith.induct) simp_all

lemma match_here_spaces: "match_here [Spaces] s \<longleftrightarrow> s \<noteq> [] \<and> isspace (hd s)"
  by (cases s) simp_all

lemma startswith_single: "startswith s [w] \<longleftrightarrow> s \<noteq> [] \<and> hd s = w"
  by (cases s) auto

lemma match_here_verb:
  "match_here (map Lit kw @ [Spaces]) s \<longleftrightarrow> (\<exists>w. isspace w \<and> startswith s (kw @ [w]))"
proof (induction s kw rule: startswith.induct)
  case (1 s)
  show ?case by (auto simp: match_here_spaces startswith_single)
next
  case (2 p ps)
  show ?case by simp
next
  case (3 c cs p ps)
  then show ?case by auto
qed

lemma search_atoms_literal: "search_atoms (map Lit lit) s \<longleftrightarrow> contains lit s"
  by (induction s) (auto simp: match_here_literal match_here_empty)

lemma search_atoms_verb:
  "search_atoms (map Lit kw @ [Spaces]) s \<longleftrightarrow> (\<exists>w. isspace w \<and> contains (kw @ [w]) s)"
proof (induction s)
  case Nil
  show ?case by (simp add: match_here_empty)
next
  case (Cons x xs)
  show ?case
    unfolding search_atoms.simps contains.simps Cons.IH match_here_verb by blast
qed

lemma compile_literal: "backslash \<notin> set lit \<Longrightarrow> compile lit = map Lit lit"
  by (induction lit rule: compile.induct) auto

lemma compile_verb:
  "backslash \<notin> set kw \<Longrightarrow> compile (kw @ [backslash] @ ''s+'') = map Lit kw @ [Spaces]"
proof (induction kw)
  case Nil
  show ?case by simp
next
  case (Cons c cs)
  then show ?case by (cases cs) auto
qed

lemma re_search_verb:
  "backslash \<notin> set kw \<Longrightarrow>
   re_search (kw @ [backslash] @ ''s+'') s \<longleftrightarrow> (\<exists>w. isspace w \<and> contains (kw @ [w]) s)"
  by (simp add: re_search_def compile_verb search_atoms_verb del: append.simps)

lemma re_search_literal: "backslash \<notin> set lit \<Longrightarrow> re_search lit s \<longleftrightarrow> contains lit s"
  by (simp add: re_search_def compile_literal search_atoms_literal)

lemma re_search_comment: "re_search (''/'' @ [backslash] @ ''*'') s \<longleftrightarrow> contains ''/*'' s"
proof -
  have "compile (''/'' @ [backslash] @ ''*'') = map Lit ''/*''"
    by (simp add: backslash_def)
  then show ?thesis by (simp only: re_search_def search_atoms_literal)
qed

lemma first_forbidden_None:
  "first_forbidden ps u = None \<longleftrightarrow> (\<forall>p\<in>set ps. \<not> re_search p u)"
  by (induction ps) simp_all

lemma first_forbidden_Some:
  "first_forbidden ps u = Some q \<Longrightarrow> q \<in> set ps \<and> re_search q u"
  by (induction ps) (auto split: if_splits)

section \<open>The rules of the validator\<close>

lemma validate_sql_rules:
  "validate_sql sql =
     (if \<not> startswith (sql_upper_of sql) ''SELECT''
      then (False, ''Only SELECT queries are allowed'')
      else case first_forbidden forbidden_patterns (sql_upper_of sql) of
        Some pattern \<Rightarrow> (False, ''Forbidden SQL pattern detected: '' @ pattern)
      | None \<Rightarrow>
          (if \<not> (contains ''FROM TRANSACTIONS'' (sql_upper_of sql)
                   \<or> contains ''FROM CLIENT_SUMMARY'' (sql_upper_of sql))
           then (False, ''Query must use '' @ [CHR 0x27] @ ''transactions'' @ [CHR 0x27]
                         @ '' or '' @ [CHR 0x27] @ ''client_summary'' @ [CHR 0x27] @ '' table'')
           else if odd (count_char (CHR 0x27) sql) then (False, ''Unmatched quotes detected'')
           else (True, ''Query validated successfully'')))"
  by (simp add: validate_sql_def Let_def odd_iff_mod_2_eq_one split: option.split)


lemma verb_pattern_matches:
  assumes kw: "kw \<in> set [''DROP'', ''DELETE'', ''INSERT'', ''UPDATE'', ''ALTER'', ''CREATE'',
                          ''EXEC'', ''UNION'']"
    and w: "isspace w" and c: "contains (kw @ [w]) u"
  shows "\<exists>p\<in>set forbidden_patterns. re_search p u"
proof -
  from kw have mem: "kw @ [backslash] @ ''s+'' \<in> set forbidden_patterns"
    by (auto simp: forbidden_patterns_def)
  from kw have "backslash \<notin> set kw"
    by (auto simp: backslash_def)
  with w c have "re_search (kw @ [backslash] @ ''s+'') u"
    using re_search_verb [of kw u] by blast
  with mem show ?thesis by blast
qed

lemma comment_pattern_matches:
  assumes "contains ''--'' u \<or> contains ''/*'' u"
  shows "\<exists>p\<in>set forbidden_patterns. re_search p u"
proof -
  have m1: "''--'' \<in> set forbidden_patterns"
    and m2: "''/'' @ [backslash] @ ''*'' \<in> set forbidden_patterns"
    by (simp_all add: forbidden_patterns_def)
  have "re_search ''--'' u \<longleftrightarrow> contains ''--'' u"
    by (rule re_search_literal) (simp add: backslash_def)
  with assms m1 m2 show ?thesis
    using re_search_comment by blast
qed

text \<open>
  The patterns \<open>xp_\<close> and \<open>sp_\<close> are lower-case and are searched in the upper-cased
  statement, which has no lower-case letter: they are never found.
\<close>

lemma upper_char_not_lower:
  "upper_char c \<notin> set ''abcdefghijklmnopqrstuvwxyz''"
  by (simp add: upper_char_def)

lemma startswith_set: "startswith s p \<Longrightarrow> set p \<subseteq> set s"
  by (induction s p rule: startswith.induct) auto

lemma contains_set: "contains sub s \<Longrightarrow> set sub \<subseteq> set s"
proof (induction s)
  case Nil
  then show ?case by simp
next
  case (Cons c cs)
  from Cons.prems have "startswith (c # cs) sub \<or> contains sub cs" by simp
  then show ?case
  proof
    assume "startswith (c # cs) sub"
    then show ?thesis by (rule startswith_set)
  next
    assume "contains sub cs"
    then have "set sub \<subseteq> set cs" by (rule Cons.IH)
    then show ?thesis by auto
  qed
qed

lemma set_strip: "set (strip s) \<subseteq> set s"
  by (auto simp: strip_def dest!: set_dropWhileD)

lemma lowercase_patterns_never_match:
  "\<not> re_search ''xp_'' (sql_upper_of sql) \<and> \<not> re_search ''sp_'' (sql_upper_of sql)"
proof -
  have no: "CHR ''p'' \<notin> set (sql_upper_of sql)"
  proof
    assume "CHR ''p'' \<in> set (sql_upper_of sql)"
    with set_strip have "CHR ''p'' \<in> set (upper sql)"
      unfolding sql_upper_of_def by blast
    then obtain c where "upper_char c = CHR ''p''"
      by (auto simp: upper_def)
    with upper_char_not_lower [of c] show False by simp
  qed
  have "\<not> contains ''xp_'' (sql_upper_of sql)"
    using contains_set [of "''xp_''" "sql_upper_of sql"] no by auto
  moreover have "\<not> contains ''sp_'' (sql_upper_of sql)"
    using contains_set [of "''sp_''" "sql_upper_of sql"] no by auto
  ultimately show ?thesis
    by (simp add: re_search_literal backslash_def)
qed

section \<open>Forbidden keywords\<close>

text \<open>
  Claim C2, as stated, fails. The verbs are searched with a following \<open>\s+\<close>, so a verb
  that is not followed by whitespace (here inside the alias \<open>dropped\<close>) is not found and
  the statement is admitted; a statement with \<open>sp_\<close> in it is admitted as well; and a
  statement that does not start with \<open>SELECT\<close> is rejected by the first rule, whose reason
  names no pattern.
\<close>

theorem forbidden_keyword_counterexample:
  "contains ''DROP'' (sql_upper_of ''SELECT amt AS dropped FROM transactions'')
   \<and> fst (validate_sql ''SELECT amt AS dropped FROM transactions'')
   \<and> contains ''sp_'' ''SELECT sp_x FROM transactions''
   \<and> fst (validate_sql ''SELECT sp_x FROM transactions'')
   \<and> contains ''DROP'' (sql_upper_of ''DROP TABLE transactions'')
   \<and> snd (validate_sql ''DROP TABLE transactions'') = ''Only SELECT queries are allowed''"
  by code_simp

text \<open>
  Claim C2, amended. A statement whose trimmed, upper-cased text contains one of the verbs
  DROP, DELETE, INSERT, UPDATE, ALTER, CREATE, EXEC, UNION followed by a whitespace
  character, or contains \<open>--\<close> or \<open>/*\<close>, is rejected by \<open>validate_sql\<close>; when it starts
  with \<open>SELECT\<close> the reason names a forbidden pattern of the table that the text matches,
  and otherwise the reason is that of the first rule.
\<close>

theorem forbidden_pattern_rejected:
  assumes "(\<exists>kw w. kw \<in> set [''DROP'', ''DELETE'', ''INSERT'', ''UPDATE'', ''ALTER'', ''CREATE'',
                                ''EXEC'', ''UNION'']
              \<and> isspace w \<and> contains (kw @ [w]) (sql_upper_of sql))
           \<or> contains ''--'' (sql_upper_of sql) \<or> contains ''/*'' (sql_upper_of sql)"
  shows "\<not> fst (validate_sql sql)
       \<and> (startswith (sql_upper_of sql) ''SELECT'' \<longrightarrow>
            (\<exists>p\<in>set forbidden_patterns. re_search p (sql_upper_of sql)
               \<and> snd (validate_sql sql) = ''Forbidden SQL pattern detected: '' @ p))
       \<and> (\<not> startswith (sql_upper_of sql) ''SELECT'' \<longrightarrow>
            snd (validate_sql sql) = ''Only SELECT queries are allowed'')"
proof -
  from assms have "\<exists>p\<in>set forbidden_patterns. re_search p (sql_upper_of sql)"
    using verb_pattern_matches comment_pattern_matches by blast
  then have "first_forbidden forbidden_patterns (sql_upper_of sql) \<noteq> None"
    by (simp add: first_forbidden_None)
  then obtain q where q: "first_forbidden forbidden_patterns (sql_upper_of sql) = Some q"
    by blast
  from first_forbidden_Some [OF q]
  have "q \<in> set forbidden_patterns" "re_search q (sql_upper_of sql)" by simp_all
  with q show ?thesis by (auto simp: validate_sql_rules)
qed

theorem forbidden_pattern_rejected_witness:
  "isspace (CHR '' '')
   \<and> contains (''DROP'' @ [CHR '' ''])
        (sql_upper_of ''SELECT * FROM transactions; drop table transactions'')
   \<and> startswith (sql_upper_of ''SELECT * FROM transactions; drop table transactions'') ''SELECT''
   \<and> \<not> fst (validate_sql ''SELECT * FROM transactions; drop table transactions'')
   \<and> snd (validate_sql ''SELECT * FROM transactions; drop table transactions'')
       = ''Forbidden SQL pattern detected: DROP'' @ [backslash] @ ''s+''"
proof -
  have h1: "isspace (CHR '' '')"
    by code_simp
  have h2: "contains (''DROP'' @ [CHR '' ''])
        (sql_upper_of ''SELECT * FROM transactions; drop table transactions'')"
    by code_simp
  have h3: "startswith (sql_upper_of ''SELECT * FROM transactions; drop table transactions'')
        ''SELECT''"
    by code_simp
  have h4: "snd (validate_sql ''SELECT * FROM transactions; drop table transactions'')
       = ''Forbidden SQL pattern detected: DROP'' @ [backslash] @ ''s+''"
    by code_simp
  have "''DROP'' \<in> set [''DROP'', ''DELETE'', ''INSERT'', ''UPDATE'', ''ALTER'', ''CREATE'',
                                ''EXEC'', ''UNION'']"
    by simp
  with h1 h2 have hyp: "(\<exists>kw w. kw \<in> set [''DROP'', ''DELETE'', ''INSERT'', ''UPDATE'',
                                ''ALTER'', ''CREATE'', ''EXEC'', ''UNION'']
              \<and> isspace w
              \<and> contains (kw @ [w])
                   (sql_upper_of ''SELECT * FROM transactions; drop table transactions''))
           \<or> contains ''--'' (sql_upper_of ''SELECT * FROM transactions; drop table transactions'')
           \<or> contains ''/*'' (sql_upper_of ''SELECT * FROM transactions; drop table transactions'')"
    by blast
  from forbidden_pattern_rejected [OF hyp] h1 h2 h3 h4 show ?thesis by blast
qed

section \<open>The table allowlist\<close>

text \<open>
  Claim C3, as stated, fails in both directions. The rule looks for the text \<open>FROM\<close>, one
  blank and the table name anywhere in the upper-cased statement: a statement that names
  \<open>transactions\<close> after two blanks is rejected, and statements that read another table
  (\<open>transactions_backup\<close>, or \<open>sqlite_master\<close> beside a subquery on \<open>transactions\<close>)
  are admitted.
\<close>

theorem table_allowlist_counterexample:
  "validate_sql ''SELECT * FROM  transactions''
     = (False, ''Query must use '' @ [CHR 0x27] @ ''transactions'' @ [CHR 0x27]
                @ '' or '' @ [CHR 0x27] @ ''client_summary'' @ [CHR 0x27] @ '' table'')
   \<and> fst (validate_sql ''SELECT * FROM transactions_backup'')
   \<and> fst (validate_sql ''SELECT name FROM sqlite_master WHERE EXISTS (SELECT 1 FROM transactions)'')"
  by code_simp

text \<open>
  Claim C3, amended. A statement whose trimmed, upper-cased text contains neither
  \<open>FROM TRANSACTIONS\<close> nor \<open>FROM CLIENT_SUMMARY\<close> (the word, one blank, the table name) is
  rejected by \<open>validate_sql\<close>; a statement that names an allowed table that way, in any
  letter case, passes the table rule: it is never rejected with the reason of that rule.
\<close>

theorem table_allowlist_rule:
  "(\<not> contains ''FROM TRANSACTIONS'' (sql_upper_of sql)
      \<and> \<not> contains ''FROM CLIENT_SUMMARY'' (sql_upper_of sql)
      \<longrightarrow> \<not> fst (validate_sql sql))
   \<and> (contains ''FROM TRANSACTIONS'' (sql_upper_of sql)
        \<or> contains ''FROM CLIENT_SUMMARY'' (sql_upper_of sql)
      \<longrightarrow> snd (validate_sql sql)
            \<noteq> ''Query must use '' @ [CHR 0x27] @ ''transactions'' @ [CHR 0x27]
                @ '' or '' @ [CHR 0x27] @ ''client_summary'' @ [CHR 0x27] @ '' table'')"
  by (simp add: validate_sql_rules split: option.split)

theorem table_allowlist_rule_witness:
  "\<not> contains ''FROM TRANSACTIONS'' (sql_upper_of ''SELECT * FROM users'')
   \<and> \<not> contains ''FROM CLIENT_SUMMARY'' (sql_upper_of ''SELECT * FROM users'')
   \<and> \<not> fst (validate_sql ''SELECT * FROM users'')
   \<and> contains ''FROM CLIENT_SUMMARY'' (sql_upper_of ''select * from Client_Summary'')
   \<and> snd (validate_sql ''select * from Client_Summary'')
        \<noteq> ''Query must use '' @ [CHR 0x27] @ ''transactions'' @ [CHR 0x27]
            @ '' or '' @ [CHR 0x27] @ ''client_summary'' @ [CHR 0x27] @ '' table''"
proof -
  have h1: "\<not> contains ''FROM TRANSACTIONS'' (sql_upper_of ''SELECT * FROM users'')"
    by code_simp
  have h2: "\<not> contains ''FROM CLIENT_SUMMARY'' (sql_upper_of ''SELECT * FROM users'')"
    by code_simp
  have h3: "contains ''FROM CLIENT_SUMMARY'' (sql_upper_of ''select * from Client_Summary'')"
    by code_simp
  from table_allowlist_rule [of "''SELECT * FROM users''"]
       table_allowlist_rule [of "''select * from Client_Summary''"] h1 h2 h3
  show ?thesis by blast
qed

section \<open>Semicolons and double quotes\<close>



end
